theory Spec2Isabelle
  imports Main "HOL-Library.Word"
begin

section \<open>Values at the language boundary\<close>

text \<open>
  The adapter \<^verbatim>\<open>cipopt.pyx\<close> sits between Python objects and the C interface of the
  native solver. A C \<^verbatim>\<open>int\<close> is modelled by an integer that has passed the range check of
  the conversion from a Python integer (\<open>to_c_int\<close> below); the adapter does no arithmetic
  on it. A C \<^verbatim>\<open>double\<close> is its 64-bit pattern: the adapter only copies doubles and creates
  zeros, and the pattern of \<^verbatim>\<open>0.0\<close> is the word \<open>0\<close>. A raw pointer handed over by the
  native solver is \<open>None\<close> when it is \<^verbatim>\<open>NULL\<close> and otherwise \<open>Some\<close> of the block it points
  to; a pointer into the memory of Python arrays is an address of the store.
\<close>

type_synonym c_int = int
type_synonym c_double = "64 word"
type_synonym addr = nat
type_synonym IpoptProblem = nat

datatype py_exn =
    AssertionError
  | TypeError
  | ValueError
  | OverflowError
  | IpoptContextError string

text \<open>
  \<open>IpoptContextError\<close> carries the key that its message
  \<^verbatim>\<open>'option %s could not be set' % key\<close> names.
\<close>

text \<open>
  A call either returns a value, or raises a Python exception, or runs into behaviour that
  C leaves undefined (a copy that leaves a buffer, a field read through \<^verbatim>\<open>None\<close>).
\<close>

datatype failure = Raise py_exn | Undefined

type_synonym 'a result = "failure + 'a"

definition to_c_int :: "int \<Rightarrow> c_int result" where
  "to_c_int i = (if - (2 ^ 31) \<le> i \<and> i < 2 ^ 31 then Inr i else Inl (Raise OverflowError))"

subsection \<open>Array objects\<close>

datatype dtype = Float64 | Float32 | Int32 | Int64

record ndarray =
  arr_dtype :: dtype
  arr_native :: bool
  arr_shape :: "nat list"
  arr_c_contiguous :: bool
  arr_data :: addr

text \<open>
  The Python objects that reach the adapter. \<open>PyOther\<close> stands for an object of any other
  class (a list, a tuple, a bytes object), one that is an instance of none of \<^verbatim>\<open>int\<close>,
  \<^verbatim>\<open>str\<close>, \<^verbatim>\<open>float\<close> and \<^verbatim>\<open>numpy.ndarray\<close>.
\<close>

datatype py_obj =
    PyNone
  | PyInt int
  | PyBool bool
  | PyStr string
  | PyFloat c_double
  | PyNdarray ndarray
  | PyOther

text \<open>
  \<^verbatim>\<open>ArrayDouble(a, size)\<close> wraps a raw pointer as a one-dimensional array of \<open>size\<close>
  doubles without copying.
\<close>

record array_view =
  view_data :: "c_double list option"
  view_size :: c_int

definition ArrayDouble :: "c_double list option \<Rightarrow> c_int \<Rightarrow> array_view" where
  "ArrayDouble a sz = \<lparr>view_data = a, view_size = sz\<rparr>"

subsection \<open>The caller's callbacks\<close>

text \<open>
  A callback is a function of its arguments that returns a value of the kind its caller binds
  it to: a double for the objective, a contiguous array of doubles (of any length) for the
  gradient, the constraints and the values of the Jacobian and the Hessian, a pair of
  contiguous arrays of C integers (of any lengths) for a sparsity pattern.

  The objective callback may also raise: its answer is \<open>Inl\<close> of the exception when the call
  raises or when what it returns does not convert to a double. The trampolines are declared
  \<^verbatim>\<open>cdef bint\<close> without an exception clause: an exception that arises in one is written
  out and dropped, and the trampoline returns \<open>0\<close>. For the other four callbacks only the
  returning call is represented; what is stated below of their trampolines is about calls in
  which the callback returns.

  The Jacobian and the Hessian callback answer two kinds of query with one function:
  \<^verbatim>\<open>eval_jac_g(None, True)\<close> and \<^verbatim>\<open>eval_h(None, None, None, True)\<close> ask for the sparsity
  pattern, \<^verbatim>\<open>eval_jac_g(x, False)\<close> and \<^verbatim>\<open>eval_h(x, lam, obj_factor, False)\<close> for the
  values. Such a callback is given by its two answers.
\<close>

record jac_callback =
  jac_structure :: "c_int list \<times> c_int list"
  jac_values :: "array_view \<Rightarrow> c_double list"

record hess_callback =
  hess_structure :: "c_int list \<times> c_int list"
  hess_values :: "array_view \<Rightarrow> array_view \<Rightarrow> c_double \<Rightarrow> c_double list"

datatype cb_call =
    Call_eval_f array_view
  | Call_eval_grad_f array_view
  | Call_eval_g array_view
  | Call_eval_jac_g "array_view option" bool
  | Call_eval_h "array_view option" "array_view option" "c_double option" bool

record IpoptContext =
  self_n :: c_int
  self_m :: c_int
  self_nnzj :: c_int
  self_nnzh :: c_int
  self_l :: py_obj
  self_u :: py_obj
  self_gl :: py_obj
  self_gu :: py_obj
  self_eval_f :: "array_view \<Rightarrow> py_exn + c_double"
  self_eval_g :: "array_view \<Rightarrow> c_double list"
  self_eval_grad_f :: "array_view \<Rightarrow> c_double list"
  self_eval_jac_g :: jac_callback
  self_eval_h :: hess_callback
  self_problem :: IpoptProblem

section \<open>The callback trampolines\<close>

text \<open>
  \<^verbatim>\<open>memcpy(dst, src, sizeof(elem) * k)\<close> on blocks: it copies the first \<open>k\<close> elements of
  \<open>src\<close> over the first \<open>k\<close> elements of \<open>dst\<close>. The result is \<open>None\<close> when the copy is
  not confined to the two blocks: \<open>dst\<close> is \<^verbatim>\<open>NULL\<close>, or \<open>k\<close> exceeds the length of one of the
  blocks, or \<open>k\<close> is negative (the byte count is unsigned, so a negative count is a huge one).
\<close>

definition memcpy :: "'a list option \<Rightarrow> 'a list \<Rightarrow> c_int \<Rightarrow> 'a list option" where
  "memcpy dst src k =
     (case dst of
        None \<Rightarrow> None
      | Some d \<Rightarrow>
          if 0 \<le> k \<and> nat k \<le> length src \<and> nat k \<le> length d
          then Some (take (nat k) src @ drop (nat k) d)
          else None)"

text \<open>
  Each trampoline returns the list of calls it made to the caller's callbacks, and its own
  outcome: the boolean it returns to the native driver together with the output blocks after
  the call.
\<close>

definition eval_f_cb ::
  "c_int \<Rightarrow> c_double list option \<Rightarrow> bool \<Rightarrow> c_double list option \<Rightarrow> IpoptContext
   \<Rightarrow> cb_call list \<times> (bool \<times> c_double list option) result" where
  "eval_f_cb n x new_x obj_value user_data =
     (let c = user_data
      in ([Call_eval_f (ArrayDouble x (self_n c))],
          case self_eval_f c (ArrayDouble x (self_n c)) of
            Inl e \<Rightarrow> Inr (False, obj_value)
          | Inr v \<Rightarrow>
              (case obj_value of
                 Some (slot # rest) \<Rightarrow> Inr (True, Some (v # rest))
               | _ \<Rightarrow> Inl Undefined)))"

definition eval_grad_f_cb ::
  "c_int \<Rightarrow> c_double list option \<Rightarrow> bool \<Rightarrow> c_double list option \<Rightarrow> IpoptContext
   \<Rightarrow> cb_call list \<times> (bool \<times> c_double list option) result" where
  "eval_grad_f_cb n x new_x grad_f user_data =
     (let c = user_data;
          grad_f_arr = self_eval_grad_f c (ArrayDouble x (self_n c))
      in ([Call_eval_grad_f (ArrayDouble x (self_n c))],
          case memcpy grad_f grad_f_arr (self_n c) of
            None \<Rightarrow> Inl Undefined
          | Some grad_f' \<Rightarrow> Inr (True, Some grad_f')))"

definition eval_g_cb ::
  "c_int \<Rightarrow> c_double list option \<Rightarrow> bool \<Rightarrow> c_int \<Rightarrow> c_double list option \<Rightarrow> IpoptContext
   \<Rightarrow> cb_call list \<times> (bool \<times> c_double list option) result" where
  "eval_g_cb n x new_x m g user_data =
     (let c = user_data;
          g_arr = self_eval_g c (ArrayDouble x (self_n c))
      in ([Call_eval_g (ArrayDouble x (self_n c))],
          case memcpy g g_arr (self_m c) of
            None \<Rightarrow> Inl Undefined
          | Some g' \<Rightarrow> Inr (True, Some g')))"

text \<open>
  The outputs of the Jacobian and Hessian trampolines are the three blocks \<open>iRow\<close>, \<open>jCol\<close>
  and \<open>values\<close>, in this order.
\<close>

type_synonym sparse_out = "c_int list option \<times> c_int list option \<times> c_double list option"

definition eval_jac_g_cb ::
  "c_int \<Rightarrow> c_double list option \<Rightarrow> bool \<Rightarrow> c_int \<Rightarrow> c_int
   \<Rightarrow> c_int list option \<Rightarrow> c_int list option \<Rightarrow> c_double list option \<Rightarrow> IpoptContext
   \<Rightarrow> cb_call list \<times> (bool \<times> sparse_out) result" where
  "eval_jac_g_cb n x new_x m nele_jac iRow jCol values user_data =
     (let c = user_data in
      if x = None \<and> iRow \<noteq> None \<and> jCol \<noteq> None then
        (let (Jrow_arr, Jcol_arr) = jac_structure (self_eval_jac_g c) in
         ([Call_eval_jac_g None True],
          if int (length Jrow_arr) \<noteq> nele_jac \<or> int (length Jcol_arr) \<noteq> nele_jac
          then Inr (False, iRow, jCol, values)
          else (case memcpy iRow Jrow_arr nele_jac of
                  None \<Rightarrow> Inl Undefined
                | Some iRow' \<Rightarrow>
                    (case memcpy jCol Jcol_arr nele_jac of
                       None \<Rightarrow> Inl Undefined
                     | Some jCol' \<Rightarrow> Inr (True, Some iRow', Some jCol', values)))))
      else
        (let Jdata_arr = jac_values (self_eval_jac_g c) (ArrayDouble x (self_n c)) in
         ([Call_eval_jac_g (Some (ArrayDouble x (self_n c))) False],
          if int (length Jdata_arr) \<noteq> nele_jac
          then Inr (False, iRow, jCol, values)
          else (case memcpy values Jdata_arr nele_jac of
                  None \<Rightarrow> Inl Undefined
                | Some values' \<Rightarrow> Inr (True, iRow, jCol, Some values')))))"

definition eval_h_cb ::
  "c_int \<Rightarrow> c_double list option \<Rightarrow> bool \<Rightarrow> c_double \<Rightarrow> c_int \<Rightarrow> c_double list option \<Rightarrow> bool
   \<Rightarrow> c_int \<Rightarrow> c_int list option \<Rightarrow> c_int list option \<Rightarrow> c_double list option \<Rightarrow> IpoptContext
   \<Rightarrow> cb_call list \<times> (bool \<times> sparse_out) result" where
  "eval_h_cb n x new_x obj_factor m lam new_lam nele_hess iRow jCol values user_data =
     (let c = user_data in
      if x = None \<and> iRow \<noteq> None \<and> jCol \<noteq> None then
        (let (Hrow_arr, Hcol_arr) = hess_structure (self_eval_h c) in
         ([Call_eval_h None None None True],
          if int (length Hrow_arr) \<noteq> nele_hess \<or> int (length Hcol_arr) \<noteq> nele_hess
          then Inr (False, iRow, jCol, values)
          else (case memcpy iRow Hrow_arr nele_hess of
                  None \<Rightarrow> Inl Undefined
                | Some iRow' \<Rightarrow>
                    (case memcpy jCol Hcol_arr nele_hess of
                       None \<Rightarrow> Inl Undefined
                     | Some jCol' \<Rightarrow> Inr (True, Some iRow', Some jCol', values)))))
      else
        (let Hdata_arr = hess_values (self_eval_h c) (ArrayDouble x (self_n c))
                           (ArrayDouble lam (self_m c)) obj_factor in
         ([Call_eval_h (Some (ArrayDouble x (self_n c))) (Some (ArrayDouble lam (self_m c)))
             (Some obj_factor) False],
          if int (length Hdata_arr) \<noteq> nele_hess
          then Inr (False, iRow, jCol, values)
          else (case memcpy values Hdata_arr nele_hess of
                  None \<Rightarrow> Inl Undefined
                | Some values' \<Rightarrow> Inr (True, iRow, jCol, Some values')))))"

section \<open>The native library and the store\<close>

text \<open>
  The native solver is outside the adapter. Every call the adapter makes to it is recorded,
  with its arguments; for \<^verbatim>\<open>IpoptSolve\<close> each buffer argument is recorded as the address
  passed together with the block found there at the moment of the call. The callback
  function pointers of \<^verbatim>\<open>CreateIpoptProblem\<close> are always the five trampolines above, the
  second and third argument of \<^verbatim>\<open>IpoptSolve\<close> are always \<^verbatim>\<open>NULL\<close> and its last one is
  always the context; they are left out of the record.
\<close>

datatype native_call =
    CreateIpoptProblem c_int addr addr c_int addr addr c_int c_int c_int
  | AddIpoptIntOption IpoptProblem string int
  | AddIpoptStrOption IpoptProblem string string
  | AddIpoptNumOption IpoptProblem string c_double
  | IpoptSolve IpoptProblem "addr \<times> c_double list option" "addr \<times> c_double list option"
      "addr \<times> c_double list option" "addr \<times> c_double list option"

text \<open>
  What the native library answers is a parameter: any function of the calls made so far, the
  current one last. The iteration driver answers with its status and, for each of its four
  buffers (\<open>x\<close>, \<open>mult_g\<close>, \<open>mult_x_L\<close>, \<open>mult_x_U\<close>), the value it leaves at every index.
  The declarations of the native functions (\<^verbatim>\<open>cipopt.pxd\<close>) are not among the sources: the
  parameters of the setters are those of the solver's C interface, a \<^verbatim>\<open>char*\<close> keyword and
  an \<^verbatim>\<open>int\<close>, a \<^verbatim>\<open>char*\<close> or a \<^verbatim>\<open>double\<close> value.
\<close>

record native =
  CreateIpoptProblem_ret :: "native_call list \<Rightarrow> IpoptProblem"
  AddIpoptOption_ret :: "native_call list \<Rightarrow> bool"
  IpoptSolve_ret :: "native_call list
    \<Rightarrow> int \<times> (nat \<Rightarrow> c_double) \<times> (nat \<Rightarrow> c_double) \<times> (nat \<Rightarrow> c_double) \<times> (nat \<Rightarrow> c_double)"

text \<open>
  The world the methods run in: the native calls and the callback calls made so far, the
  store of the blocks of double arrays, and the next address an allocation returns.
\<close>

record world =
  native_calls :: "native_call list"
  cb_calls :: "cb_call list"
  mem :: "addr \<rightharpoonup> c_double list"
  brk :: addr


text \<open>
  The typed binding \<^verbatim>\<open>cdef np.ndarray[double,mode='c'] v = obj\<close>: an object that is neither
  an array nor \<^verbatim>\<open>None\<close> raises \<^verbatim>\<open>TypeError\<close>; an array that is not C-contiguous, not
  one-dimensional or not of native doubles raises \<^verbatim>\<open>ValueError\<close>. The length of the array
  is not looked at. \<^verbatim>\<open>None\<close> is bound without an error (null checks are off unless the
  module is compiled with them), and reading \<^verbatim>\<open>v.data\<close> through it is undefined.
\<close>

fun as_double_buffer :: "py_obj \<Rightarrow> ndarray option result" where
  "as_double_buffer PyNone = Inr None"
| "as_double_buffer (PyNdarray a) =
     (if \<not> arr_c_contiguous a then Inl (Raise ValueError)
      else if length (arr_shape a) \<noteq> 1 then Inl (Raise ValueError)
      else if arr_dtype a \<noteq> Float64 \<or> \<not> arr_native a then Inl (Raise ValueError)
      else Inr (Some a))"
| "as_double_buffer _ = Inl (Raise TypeError)"

text \<open>\<^verbatim>\<open>np.zeros(k)\<close>: a new array of \<open>k\<close> zeros in a block of its own.\<close>

definition double_array :: "nat \<Rightarrow> addr \<Rightarrow> ndarray" where
  "double_array k a =
     \<lparr>arr_dtype = Float64, arr_native = True, arr_shape = [k],
      arr_c_contiguous = True, arr_data = a\<rparr>"

definition np_zeros :: "c_int \<Rightarrow> world \<Rightarrow> ndarray result \<times> world" where
  "np_zeros k w =
     (if k < 0 then (Inl (Raise ValueError), w)
      else (Inr (double_array (nat k) (brk w)),
            w\<lparr>mem := (mem w)(brk w \<mapsto> replicate (nat k) 0), brk := Suc (brk w)\<rparr>))"

text \<open>
  What the native driver leaves in a block it was handed replaces the contents of that block.
  The store does not represent what the driver writes beyond the end of a block (as it does
  through a starting point shorter than \<open>n\<close>): nothing is stated below about the contents
  of the store after the driver has run, apart from the lengths of the blocks.
\<close>

definition native_write :: "(nat \<Rightarrow> c_double) \<Rightarrow> addr \<Rightarrow> (addr \<rightharpoonup> c_double list) \<Rightarrow> (addr \<rightharpoonup> c_double list)" where
  "native_write f a s = (case s a of None \<Rightarrow> s | Some blk \<Rightarrow> s(a \<mapsto> map f [0..<length blk]))"

section \<open>The context\<close>

definition create_problem :: "native \<Rightarrow> IpoptContext \<Rightarrow> world \<Rightarrow> IpoptContext result \<times> world" where
  "create_problem lib self w =
     (case as_double_buffer (self_l self) of Inl e \<Rightarrow> (Inl e, w) | Inr nl \<Rightarrow>
     (case as_double_buffer (self_u self) of Inl e \<Rightarrow> (Inl e, w) | Inr nu \<Rightarrow>
     (case as_double_buffer (self_gl self) of Inl e \<Rightarrow> (Inl e, w) | Inr ngl \<Rightarrow>
     (case as_double_buffer (self_gu self) of Inl e \<Rightarrow> (Inl e, w) | Inr ngu \<Rightarrow>
     (case (nl, nu, ngl, ngu) of
        (Some al, Some au, Some agl, Some agu) \<Rightarrow>
          (let calls = native_calls w @
                 [CreateIpoptProblem (self_n self) (arr_data al) (arr_data au)
                    (self_m self) (arr_data agl) (arr_data agu)
                    (self_nnzj self) (self_nnzh self) 0]
           in (Inr (self\<lparr>self_problem := CreateIpoptProblem_ret lib calls\<rparr>),
               w\<lparr>native_calls := calls\<rparr>))
      | _ \<Rightarrow> (Inl Undefined, w))))))"

text \<open>
  \<^verbatim>\<open>IpoptContext.__init__\<close>. The fields declared \<^verbatim>\<open>cdef int\<close> convert the Python integers
  they are assigned; the integer fields and the handle of a new object are zero.
\<close>

definition IpoptContext_init ::
  "native \<Rightarrow> int \<Rightarrow> int \<Rightarrow> py_obj \<Rightarrow> py_obj \<Rightarrow> py_obj \<Rightarrow> py_obj
   \<Rightarrow> (array_view \<Rightarrow> py_exn + c_double) \<Rightarrow> (array_view \<Rightarrow> c_double list)
   \<Rightarrow> (array_view \<Rightarrow> c_double list)
   \<Rightarrow> jac_callback \<Rightarrow> hess_callback \<Rightarrow> world \<Rightarrow> IpoptContext result \<times> world" where
  "IpoptContext_init lib n m l u gl gu eval_f eval_g eval_grad_f eval_jac_g eval_h w =
     (case to_c_int n of Inl e \<Rightarrow> (Inl e, w) | Inr cn \<Rightarrow>
     (case to_c_int m of Inl e \<Rightarrow> (Inl e, w) | Inr cm \<Rightarrow>
     (let self = \<lparr>self_n = cn, self_m = cm, self_nnzj = 0, self_nnzh = 0,
                  self_l = l, self_u = u, self_gl = gl, self_gu = gu,
                  self_eval_f = eval_f, self_eval_g = eval_g, self_eval_grad_f = eval_grad_f,
                  self_eval_jac_g = eval_jac_g, self_eval_h = eval_h, self_problem = 0\<rparr>;
          (Jrow, Jcol) = jac_structure eval_jac_g;
          w1 = w\<lparr>cb_calls := cb_calls w @ [Call_eval_jac_g None True]\<rparr>
      in if length Jrow \<noteq> length Jcol then (Inl (Raise AssertionError), w1)
         else
     (case to_c_int (int (length Jrow)) of Inl e \<Rightarrow> (Inl e, w1) | Inr nnzj \<Rightarrow>
     (let self = self\<lparr>self_nnzj := nnzj\<rparr>;
          (Hrow, Hcol) = hess_structure eval_h;
          w2 = w1\<lparr>cb_calls := cb_calls w1 @ [Call_eval_h None None None True]\<rparr>
      in if length Hrow \<noteq> length Hcol then (Inl (Raise AssertionError), w2)
         else
     (case to_c_int (int (length Hrow)) of Inl e \<Rightarrow> (Inl e, w2) | Inr nnzh \<Rightarrow>
        create_problem lib (self\<lparr>self_nnzh := nnzh\<rparr>) w2))))))"

text \<open>
  \<^verbatim>\<open>isinstance(val, cls)\<close> for the three classes \<^verbatim>\<open>add_option\<close> tests. \<^verbatim>\<open>bool\<close> is a
  subclass of \<^verbatim>\<open>int\<close>, so \<^verbatim>\<open>True\<close> and \<^verbatim>\<open>False\<close> are instances of \<^verbatim>\<open>int\<close>.
\<close>

datatype py_class = Class_int | Class_str | Class_float

fun isinstance :: "py_obj \<Rightarrow> py_class \<Rightarrow> bool" where
  "isinstance (PyInt i) Class_int = True"
| "isinstance (PyBool b) Class_int = True"
| "isinstance (PyStr s) Class_str = True"
| "isinstance (PyFloat d) Class_float = True"
| "isinstance _ _ = False"

text \<open>
  The arguments of a native setter are converted to its C parameter types, the key first. An
  integer converts to a C \<^verbatim>\<open>int\<close> if it is in range and raises \<^verbatim>\<open>OverflowError\<close>
  otherwise; a float converts to a double. Whether a Python \<^verbatim>\<open>str\<close> converts to a
  \<^verbatim>\<open>char*\<close> depends on the interpreter the module is built for (in Python 2 every
  \<^verbatim>\<open>str\<close> does, in Python 3 none does and the binding raises \<^verbatim>\<open>TypeError\<close>): the
  conversion \<open>char_ptr\<close> is a parameter, \<open>None\<close> where it raises.
\<close>

definition as_char_ptr :: "(string \<Rightarrow> string option) \<Rightarrow> string \<Rightarrow> string result" where
  "as_char_ptr char_ptr s =
     (case char_ptr s of None \<Rightarrow> Inl (Raise TypeError) | Some cs \<Rightarrow> Inr cs)"

fun as_Int :: "py_obj \<Rightarrow> c_int result" where
  "as_Int (PyInt i) = to_c_int i"
| "as_Int (PyBool b) = Inr (if b then 1 else 0)"
| "as_Int _ = Inl (Raise TypeError)"

fun as_Str :: "(string \<Rightarrow> string option) \<Rightarrow> py_obj \<Rightarrow> string result" where
  "as_Str char_ptr (PyStr s) = as_char_ptr char_ptr s"
| "as_Str char_ptr _ = Inl (Raise TypeError)"

fun as_Number :: "py_obj \<Rightarrow> c_double result" where
  "as_Number (PyFloat d) = Inr d"
| "as_Number _ = Inl (Raise TypeError)"

text \<open>
  The call of a native setter: if a conversion raises, no call is made; otherwise the call is
  recorded and the library's answer returned.
\<close>

definition native_setter ::
  "native \<Rightarrow> string result \<Rightarrow> 'a result \<Rightarrow> (string \<Rightarrow> 'a \<Rightarrow> native_call) \<Rightarrow> world
   \<Rightarrow> bool result \<times> world" where
  "native_setter lib keyword val setter w =
     (case keyword of
        Inl e \<Rightarrow> (Inl e, w)
      | Inr k \<Rightarrow>
          (case val of
             Inl e \<Rightarrow> (Inl e, w)
           | Inr v \<Rightarrow>
               (let calls = native_calls w @ [setter k v]
                in (Inr (AddIpoptOption_ret lib calls), w\<lparr>native_calls := calls\<rparr>))))"

definition add_option ::
  "native \<Rightarrow> (string \<Rightarrow> string option) \<Rightarrow> IpoptContext \<Rightarrow> string \<Rightarrow> py_obj \<Rightarrow> world
   \<Rightarrow> unit result \<times> world" where
  "add_option lib char_ptr self key val w =
     (let (valid, w') =
        (if isinstance val Class_int then
           native_setter lib (as_char_ptr char_ptr key) (as_Int val)
             (AddIpoptIntOption (self_problem self)) w
         else if isinstance val Class_str then
           native_setter lib (as_char_ptr char_ptr key) (as_Str char_ptr val)
             (AddIpoptStrOption (self_problem self)) w
         else if isinstance val Class_float then
           native_setter lib (as_char_ptr char_ptr key) (as_Number val)
             (AddIpoptNumOption (self_problem self)) w
         else (Inl (Raise ValueError), w))
      in case valid of
           Inl e \<Rightarrow> (Inl e, w')
         | Inr ok \<Rightarrow>
             if \<not> ok
             then (Inl (Raise (IpoptContextError key)), w')
             else (Inr (), w'))"

text \<open>
  \<^verbatim>\<open>solve\<close>. The typed variable \<open>nx\<close> is bound to the caller's object \<open>x\<close> itself, the three
  multiplier arrays are new; the dictionary returned is a list of keys and values, in the
  order of the source.
\<close>

definition solve :: "native \<Rightarrow> IpoptContext \<Rightarrow> py_obj \<Rightarrow> world \<Rightarrow> (string \<times> py_obj) list result \<times> world" where
  "solve lib self x w =
     (case as_double_buffer x of Inl e \<Rightarrow> (Inl e, w) | Inr nx \<Rightarrow>
     (case np_zeros (self_m self) w of (Inl e, w1) \<Rightarrow> (Inl e, w1) | (Inr nlam, w1) \<Rightarrow>
     (case np_zeros (self_n self) w1 of (Inl e, w2) \<Rightarrow> (Inl e, w2) | (Inr npi, w2) \<Rightarrow>
     (case np_zeros (self_n self) w2 of (Inl e, w3) \<Rightarrow> (Inl e, w3) | (Inr nmu, w3) \<Rightarrow>
     (case nx of
        None \<Rightarrow> (Inl Undefined, w3)
      | Some ax \<Rightarrow>
          (let calls = native_calls w3 @
                 [IpoptSolve (self_problem self)
                    (arr_data ax, mem w3 (arr_data ax))
                    (arr_data nlam, mem w3 (arr_data nlam))
                    (arr_data npi, mem w3 (arr_data npi))
                    (arr_data nmu, mem w3 (arr_data nmu))];
               (status, fx, flam, fpi, fmu) = IpoptSolve_ret lib calls;
               s = native_write fmu (arr_data nmu)
                     (native_write fpi (arr_data npi)
                        (native_write flam (arr_data nlam)
                           (native_write fx (arr_data ax) (mem w3))))
           in (Inr [(''status'', PyInt status),
                    (''x'', PyNdarray ax),
                    (''lam'', PyNdarray nlam),
                    (''pi'', PyNdarray npi),
                    (''mu'', PyNdarray nmu)],
               w3\<lparr>native_calls := calls, mem := s\<rparr>)))))))"

section \<open>Notions used in the statements\<close>

text \<open>
  A conforming buffer: a one-dimensional, C-contiguous array of doubles in the byte order of
  the machine. Its length is no part of the notion.
\<close>

definition is_double_buffer :: "py_obj \<Rightarrow> bool" where
  "is_double_buffer b =
     (case b of
        PyNdarray a \<Rightarrow>
          arr_c_contiguous a \<and> length (arr_shape a) = 1 \<and> arr_dtype a = Float64 \<and> arr_native a
      | _ \<Rightarrow> False)"

text \<open>Concrete inputs for the instances below.\<close>

definition example_context :: "c_double list \<Rightarrow> c_int list \<times> c_int list \<Rightarrow> IpoptContext" where
  "example_context d p =
     \<lparr>self_n = 2, self_m = 2, self_nnzj = 2, self_nnzh = 2,
      self_l = PyNone, self_u = PyNone, self_gl = PyNone, self_gu = PyNone,
      self_eval_f = (\<lambda>v. Inr 5), self_eval_g = (\<lambda>v. d), self_eval_grad_f = (\<lambda>v. d),
      self_eval_jac_g = \<lparr>jac_structure = p, jac_values = (\<lambda>v. d)\<rparr>,
      self_eval_h = \<lparr>hess_structure = p, hess_values = (\<lambda>v l f. d)\<rparr>,
      self_problem = 1\<rparr>"

definition example_bound :: "nat \<Rightarrow> addr \<Rightarrow> py_obj" where
  "example_bound k a = PyNdarray (double_array k a)"

definition example_jac :: "c_int list \<times> c_int list \<Rightarrow> jac_callback" where
  "example_jac p = \<lparr>jac_structure = p, jac_values = (\<lambda>v. [])\<rparr>"

definition example_hess :: "c_int list \<times> c_int list \<Rightarrow> hess_callback" where
  "example_hess p = \<lparr>hess_structure = p, hess_values = (\<lambda>v l f. [])\<rparr>"

definition example_native :: native where
  "example_native =
     \<lparr>CreateIpoptProblem_ret = (\<lambda>calls. 1),
      AddIpoptOption_ret =
        (\<lambda>calls. case last calls of AddIpoptIntOption p k v \<Rightarrow> 0 \<le> v | _ \<Rightarrow> True),
      IpoptSolve_ret = (\<lambda>calls. (0, (\<lambda>i. 7), (\<lambda>i. 8), (\<lambda>i. 9), (\<lambda>i. 10)))\<rparr>"

definition example_world :: world where
  "example_world =
     \<lparr>native_calls = [], cb_calls = [],
      mem = (\<lambda>a. if a = 0 then Some [1, 2] else None), brk = 1\<rparr>"

section \<open>Properties of the trampolines\<close>

lemma eval_jac_g_cb_length_check:
  "snd (eval_jac_g_cb n x new_x m nele_jac iRow jCol values c) = Inr (True, out) \<Longrightarrow>
     (if x = None \<and> iRow \<noteq> None \<and> jCol \<noteq> None
      then int (length (fst (jac_structure (self_eval_jac_g c)))) = nele_jac
         \<and> int (length (snd (jac_structure (self_eval_jac_g c)))) = nele_jac
      else int (length (jac_values (self_eval_jac_g c) (ArrayDouble x (self_n c)))) = nele_jac)"
  by (auto simp: eval_jac_g_cb_def Let_def split: if_splits prod.splits option.splits)

lemma eval_jac_g_cb_mismatch:
  "x = None \<and> iRow \<noteq> None \<and> jCol \<noteq> None \<Longrightarrow>
   int (length (fst (jac_structure (self_eval_jac_g c)))) \<noteq> nele_jac
     \<or> int (length (snd (jac_structure (self_eval_jac_g c)))) \<noteq> nele_jac \<Longrightarrow>
   snd (eval_jac_g_cb n x new_x m nele_jac iRow jCol values c) = Inr (False, iRow, jCol, values)"
  "\<not> (x = None \<and> iRow \<noteq> None \<and> jCol \<noteq> None) \<Longrightarrow>
   int (length (jac_values (self_eval_jac_g c) (ArrayDouble x (self_n c)))) \<noteq> nele_jac \<Longrightarrow>
   snd (eval_jac_g_cb n x new_x m nele_jac iRow jCol values c) = Inr (False, iRow, jCol, values)"
  by (auto simp: eval_jac_g_cb_def Let_def split: if_splits prod.splits option.splits)

lemma eval_h_cb_length_check:
  "snd (eval_h_cb n x new_x obj_factor m lam new_lam nele_hess iRow jCol values c) = Inr (True, out) \<Longrightarrow>
     (if x = None \<and> iRow \<noteq> None \<and> jCol \<noteq> None
      then int (length (fst (hess_structure (self_eval_h c)))) = nele_hess
         \<and> int (length (snd (hess_structure (self_eval_h c)))) = nele_hess
      else int (length (hess_values (self_eval_h c) (ArrayDouble x (self_n c))
                          (ArrayDouble lam (self_m c)) obj_factor)) = nele_hess)"
  by (auto simp: eval_h_cb_def Let_def split: if_splits prod.splits option.splits)

lemma eval_h_cb_mismatch:
  "x = None \<and> iRow \<noteq> None \<and> jCol \<noteq> None \<Longrightarrow>
   int (length (fst (hess_structure (self_eval_h c)))) \<noteq> nele_hess
     \<or> int (length (snd (hess_structure (self_eval_h c)))) \<noteq> nele_hess \<Longrightarrow>
   snd (eval_h_cb n x new_x obj_factor m lam new_lam nele_hess iRow jCol values c)
     = Inr (False, iRow, jCol, values)"
  "\<not> (x = None \<and> iRow \<noteq> None \<and> jCol \<noteq> None) \<Longrightarrow>
   int (length (hess_values (self_eval_h c) (ArrayDouble x (self_n c))
                  (ArrayDouble lam (self_m c)) obj_factor)) \<noteq> nele_hess \<Longrightarrow>
   snd (eval_h_cb n x new_x obj_factor m lam new_lam nele_hess iRow jCol values c)
     = Inr (False, iRow, jCol, values)"
  by (auto simp: eval_h_cb_def Let_def split: if_splits prod.splits option.splits)

lemmas example_defs = example_context_def example_bound_def example_jac_def example_hess_def
  example_native_def example_world_def double_array_def

text \<open>
  Claim C1. Every trampoline is to compare the length of the returned buffer with the count
  the solver expects before it copies, and to return false on a mismatch. The Jacobian and
  the Hessian trampoline do (\<open>eval_jac_g_cb_length_check\<close>, \<open>eval_h_cb_length_check\<close>);
  the gradient and the constraint trampoline copy \<open>self_n\<close> and \<open>self_m\<close> doubles without
  looking at the length. With two variables and two constraints, a callback that returns
  three doubles has its first two copied and the trampoline returns true; a callback that
  returns one double makes the copy read past the end of the returned buffer.
\<close>

theorem eval_grad_f_cb_unchecked_length:
  "snd (eval_grad_f_cb 2 (Some [0, 0]) True (Some [0, 0]) (example_context [1, 2, 3] ([], [])))
     = Inr (True, Some [1, 2])
   \<and> snd (eval_grad_f_cb 2 (Some [0, 0]) True (Some [0, 0]) (example_context [1] ([], [])))
     = Inl Undefined
   \<and> snd (eval_g_cb 2 (Some [0, 0]) True 2 (Some [0, 0]) (example_context [1, 2, 3] ([], [])))
     = Inr (True, Some [1, 2])
   \<and> snd (eval_g_cb 2 (Some [0, 0]) True 2 (Some [0, 0]) (example_context [1] ([], [])))
     = Inl Undefined"
  by (simp add: eval_grad_f_cb_def eval_g_cb_def example_context_def memcpy_def)

text \<open>
  Claim C2. The Jacobian and the Hessian trampoline make exactly one call to the caller's
  callback. It is the structure query exactly when the point pointer is null and both index
  pointers are non-null, and the value query at the wrapped point in every other case.
\<close>

theorem structure_query_mode:
  "fst (eval_jac_g_cb n x new_x m nele_jac iRow jCol values c) =
     (if x = None \<and> iRow \<noteq> None \<and> jCol \<noteq> None
      then [Call_eval_jac_g None True]
      else [Call_eval_jac_g (Some (ArrayDouble x (self_n c))) False])
   \<and> fst (eval_h_cb n x new_x obj_factor m lam new_lam nele_hess iRow jCol values c) =
     (if x = None \<and> iRow \<noteq> None \<and> jCol \<noteq> None
      then [Call_eval_h None None None True]
      else [Call_eval_h (Some (ArrayDouble x (self_n c))) (Some (ArrayDouble lam (self_m c)))
              (Some obj_factor) False])"
  by (simp add: eval_jac_g_cb_def eval_h_cb_def Let_def split: prod.split)

theorem structure_query_mode_witness:
  "fst (eval_jac_g_cb 2 None True 2 2 (Some [0, 0]) (Some [0, 0]) None
          (example_context [] ([0, 1], [0, 1]))) = [Call_eval_jac_g None True]
   \<and> fst (eval_jac_g_cb 2 (Some [3, 4]) True 2 2 None None (Some [0, 0])
          (example_context [] ([0, 1], [0, 1])))
       = [Call_eval_jac_g (Some (ArrayDouble (Some [3, 4]) 2)) False]
   \<and> fst (eval_h_cb 2 None True 1 2 (Some [0, 0]) True 2 (Some [0, 0]) (Some [0, 0]) None
          (example_context [] ([0, 1], [0, 1]))) = [Call_eval_h None None None True]
   \<and> fst (eval_h_cb 2 (Some [3, 4]) True 1 2 (Some [0, 0]) True 2 None None (Some [0, 0])
          (example_context [] ([0, 1], [0, 1])))
       = [Call_eval_h (Some (ArrayDouble (Some [3, 4]) 2)) (Some (ArrayDouble (Some [0, 0]) 2))
            (Some 1) False]"
  using structure_query_mode [of 2 None True 2 2 "Some [0, 0]" "Some [0, 0]" None
      "example_context [] ([0, 1], [0, 1])"]
    structure_query_mode [of 2 "Some [3, 4]" True 2 2 None None "Some [0, 0]"
      "example_context [] ([0, 1], [0, 1])" 1 "Some [0, 0]" True 2]
  by (simp add: example_defs)

text \<open>
  When the objective callback raises, the trampoline returns false to the native driver and
  leaves the output slot as it was.
\<close>

theorem eval_f_cb_false_on_raise:
  "eval_f_cb 2 (Some [0, 0]) True (Some [0])
     ((example_context [] ([], []))\<lparr>self_eval_f := (\<lambda>v. Inl ValueError)\<rparr>)
   = ([Call_eval_f (ArrayDouble (Some [0, 0]) 2)], Inr (False, Some [0]))"
  by (simp add: eval_f_cb_def example_context_def)

text \<open>
  Claim C10, as amended. On every invocation in which the caller's callback returns a value
  that converts to a double, the objective trampoline does not return false: with a valid
  output slot it stores the value there and returns true. It has no failure return of its
  own; it returns false exactly when the callback (or the conversion of its result) raises,
  and then the slot is not written.
\<close>

theorem eval_f_cb_true_on_return:
  "(\<forall>v. self_eval_f c (ArrayDouble x (self_n c)) = Inr v \<longrightarrow>
        snd (eval_f_cb n x new_x obj_value c) \<noteq> Inr (False, out)
        \<and> (\<forall>slot rest. obj_value = Some (slot # rest) \<longrightarrow>
              eval_f_cb n x new_x obj_value c =
                ([Call_eval_f (ArrayDouble x (self_n c))], Inr (True, Some (v # rest)))))
   \<and> (\<forall>e. self_eval_f c (ArrayDouble x (self_n c)) = Inl e \<longrightarrow>
        eval_f_cb n x new_x obj_value c =
          ([Call_eval_f (ArrayDouble x (self_n c))], Inr (False, obj_value)))
   \<and> (snd (eval_f_cb n x new_x obj_value c) = Inr (False, out) \<longrightarrow>
        isl (self_eval_f c (ArrayDouble x (self_n c))))"
  by (cases "self_eval_f c (ArrayDouble x (self_n c))")
     (simp_all add: eval_f_cb_def Let_def split: option.split list.split)

theorem eval_f_cb_true_on_return_witness:
  "self_eval_f (example_context [] ([], [])) (ArrayDouble (Some [0, 0]) 2) = Inr 5
   \<and> Some [0] = Some (0 # [])
   \<and> eval_f_cb 2 (Some [0, 0]) True (Some [0]) (example_context [] ([], []))
       = ([Call_eval_f (ArrayDouble (Some [0, 0]) 2)], Inr (True, Some [5]))
   \<and> self_eval_f ((example_context [] ([], []))\<lparr>self_eval_f := (\<lambda>v. Inl TypeError)\<rparr>)
         (ArrayDouble (Some [0, 0]) 2) = Inl TypeError
   \<and> snd (eval_f_cb 2 (Some [0, 0]) True None
         ((example_context [] ([], []))\<lparr>self_eval_f := (\<lambda>v. Inl TypeError)\<rparr>))
       = Inr (False, None)"
  using eval_f_cb_true_on_return [of "example_context [] ([], [])" "Some [0, 0]" 2 True "Some [0]"]
    eval_f_cb_true_on_return
      [of "(example_context [] ([], []))\<lparr>self_eval_f := (\<lambda>v. Inl TypeError)\<rparr>" "Some [0, 0]"
          2 True None]
  by (simp add: example_context_def)

section \<open>Properties of construction\<close>

lemma as_double_buffer_Some:
  "(as_double_buffer b = Inr (Some a)) = (b = PyNdarray a \<and> is_double_buffer b)"
  by (cases b) (auto simp: is_double_buffer_def)

lemma as_double_buffer_None:
  "(as_double_buffer b = Inr None) = (b = PyNone)"
  by (cases b) (auto simp: is_double_buffer_def)

lemma as_double_buffer_Inl:
  "b \<noteq> PyNone \<Longrightarrow> \<not> is_double_buffer b \<Longrightarrow>
     as_double_buffer b = Inl (Raise TypeError) \<or> as_double_buffer b = Inl (Raise ValueError)"
  by (cases b) (auto simp: is_double_buffer_def)

lemma as_double_buffer_cases:
  "(\<exists>e. as_double_buffer b = Inl (Raise e) \<and> b \<noteq> PyNone \<and> \<not> is_double_buffer b)
   \<or> (as_double_buffer b = Inr None \<and> b = PyNone)
   \<or> (\<exists>a. as_double_buffer b = Inr (Some a) \<and> b = PyNdarray a \<and> is_double_buffer b)"
  by (cases b) (auto simp: is_double_buffer_def)

lemma is_double_buffer_binds:
  "is_double_buffer b \<Longrightarrow> \<exists>a. as_double_buffer b = Inr (Some a)"
  by (cases b) (auto simp: is_double_buffer_def)

lemma create_problem_raises:
  assumes "b \<in> {self_l self, self_u self, self_gl self, self_gu self}"
    and "b \<noteq> PyNone" and "\<not> is_double_buffer b"
  shows "\<exists>e. create_problem lib self w = (Inl (Raise e), w)"
  using assms
    as_double_buffer_cases [of "self_l self"] as_double_buffer_cases [of "self_u self"]
    as_double_buffer_cases [of "self_gl self"] as_double_buffer_cases [of "self_gu self"]
  by (auto simp: create_problem_def)

lemma create_problem_fails_no_call:
  "fst (create_problem lib self w) = Inl e \<Longrightarrow> snd (create_problem lib self w) = w"
  by (auto simp: create_problem_def Let_def split: sum.splits option.splits)

lemma create_problem_returns:
  "create_problem lib self w = (Inr self', w') \<Longrightarrow>
   \<exists>al au agl agu.
     self_l self = PyNdarray al \<and> self_u self = PyNdarray au \<and>
     self_gl self = PyNdarray agl \<and> self_gu self = PyNdarray agu \<and>
     is_double_buffer (self_l self) \<and> is_double_buffer (self_u self) \<and>
     is_double_buffer (self_gl self) \<and> is_double_buffer (self_gu self) \<and>
     w' = w\<lparr>native_calls := native_calls w @
            [CreateIpoptProblem (self_n self) (arr_data al) (arr_data au)
               (self_m self) (arr_data agl) (arr_data agu) (self_nnzj self) (self_nnzh self) 0]\<rparr> \<and>
     self' = self\<lparr>self_problem := CreateIpoptProblem_ret lib (native_calls w')\<rparr>"
  by (auto simp: create_problem_def Let_def as_double_buffer_Some split: sum.splits option.splits)

lemma create_problem_success:
  assumes "as_double_buffer (self_l self) = Inr (Some al)"
    "as_double_buffer (self_u self) = Inr (Some au)"
    "as_double_buffer (self_gl self) = Inr (Some agl)"
    "as_double_buffer (self_gu self) = Inr (Some agu)"
  shows "create_problem lib self w =
    (Inr (self\<lparr>self_problem := CreateIpoptProblem_ret lib (native_calls w @
            [CreateIpoptProblem (self_n self) (arr_data al) (arr_data au)
               (self_m self) (arr_data agl) (arr_data agu) (self_nnzj self) (self_nnzh self) 0])\<rparr>),
     w\<lparr>native_calls := native_calls w @
            [CreateIpoptProblem (self_n self) (arr_data al) (arr_data au)
               (self_m self) (arr_data agl) (arr_data agu) (self_nnzj self) (self_nnzh self) 0]\<rparr>)"
  using assms by (simp add: create_problem_def Let_def)

lemma init_fails_no_native_call:
  "fst (IpoptContext_init lib n m l u gl gu ef eg egf ejac eh w) = Inl e \<Longrightarrow>
   native_calls (snd (IpoptContext_init lib n m l u gl gu ef eg egf ejac eh w)) = native_calls w"
  by (auto simp: IpoptContext_init_def Let_def create_problem_def
      split: sum.splits prod.splits if_splits option.splits)

lemma init_keeps_store:
  "mem (snd (IpoptContext_init lib n m l u gl gu ef eg egf ejac eh w)) = mem w
   \<and> brk (snd (IpoptContext_init lib n m l u gl gu ef eg egf ejac eh w)) = brk w"
  by (auto simp: IpoptContext_init_def Let_def create_problem_def
      split: sum.splits prod.splits if_splits option.splits)

lemma init_returns:
  assumes "IpoptContext_init lib n m l u gl gu ef eg egf ejac eh w = (Inr self, w')"
  shows "\<exists>al au agl agu.
     as_double_buffer l = Inr (Some al) \<and> as_double_buffer u = Inr (Some au) \<and>
     as_double_buffer gl = Inr (Some agl) \<and> as_double_buffer gu = Inr (Some agu) \<and>
     length (fst (jac_structure ejac)) = length (snd (jac_structure ejac)) \<and>
     length (fst (hess_structure eh)) = length (snd (hess_structure eh)) \<and>
     self_n self = n \<and> self_m self = m \<and>
     self_nnzj self = int (length (fst (jac_structure ejac))) \<and>
     self_nnzh self = int (length (fst (hess_structure eh))) \<and>
     cb_calls w' = cb_calls w @ [Call_eval_jac_g None True, Call_eval_h None None None True] \<and>
     native_calls w' = native_calls w @
        [CreateIpoptProblem n (arr_data al) (arr_data au) m (arr_data agl) (arr_data agu)
           (int (length (fst (jac_structure ejac)))) (int (length (fst (hess_structure eh)))) 0] \<and>
     self_problem self = CreateIpoptProblem_ret lib (native_calls w')"
  using assms
  by (auto simp: IpoptContext_init_def Let_def create_problem_def to_c_int_def
      split: sum.splits prod.splits if_splits option.splits)

lemma init_success:
  assumes "- (2 ^ 31) \<le> n" "n < 2 ^ 31" "- (2 ^ 31) \<le> m" "m < 2 ^ 31"
    and "jac_structure ejac = (Jrow, Jcol)" "length Jrow = length Jcol" "int (length Jrow) < 2 ^ 31"
    and "hess_structure eh = (Hrow, Hcol)" "length Hrow = length Hcol" "int (length Hrow) < 2 ^ 31"
    and "as_double_buffer l = Inr (Some al)" "as_double_buffer u = Inr (Some au)"
    and "as_double_buffer gl = Inr (Some agl)" "as_double_buffer gu = Inr (Some agu)"
  shows "\<exists>self w'. IpoptContext_init lib n m l u gl gu ef eg egf ejac eh w = (Inr self, w')"
  using assms
  by (simp add: IpoptContext_init_def Let_def create_problem_def to_c_int_def)

lemma init_assertion:
  assumes "- (2 ^ 31) \<le> n" "n < 2 ^ 31" "- (2 ^ 31) \<le> m" "m < 2 ^ 31"
    and "jac_structure ejac = (Jrow, Jcol)" "hess_structure eh = (Hrow, Hcol)"
    and "length Jrow \<noteq> length Jcol \<or> length Hrow \<noteq> length Hcol"
    and "int (length Jrow) < 2 ^ 31"
  shows "fst (IpoptContext_init lib n m l u gl gu ef eg egf ejac eh w) = Inl (Raise AssertionError)"
  using assms
  by (auto simp: IpoptContext_init_def Let_def to_c_int_def)

lemma init_undefined:
  assumes "fst (IpoptContext_init lib n m l u gl gu ef eg egf ejac eh w) = Inl Undefined"
  shows "\<exists>self' w2. self_l self' = l \<and> self_u self' = u \<and> self_gl self' = gl \<and> self_gu self' = gu
           \<and> fst (create_problem lib self' w2) = Inl Undefined"
proof -
  obtain Jrow Jcol where j: "jac_structure ejac = (Jrow, Jcol)" by (cases "jac_structure ejac")
  obtain Hrow Hcol where h: "hess_structure eh = (Hrow, Hcol)" by (cases "hess_structure eh")
  let ?self = "\<lparr>self_n = n, self_m = m, self_nnzj = int (length Jrow), self_nnzh = int (length Hrow),
                  self_l = l, self_u = u, self_gl = gl, self_gu = gu,
                  self_eval_f = ef, self_eval_g = eg, self_eval_grad_f = egf,
                  self_eval_jac_g = ejac, self_eval_h = eh, self_problem = 0\<rparr>"
  let ?w2 = "w\<lparr>cb_calls := cb_calls w @ [Call_eval_jac_g None True, Call_eval_h None None None True]\<rparr>"
  have "fst (create_problem lib ?self ?w2) = Inl Undefined"
    using assms j h
    by (simp add: IpoptContext_init_def Let_def to_c_int_def split: if_splits)
  then show ?thesis
    by (intro exI [of _ ?self] exI [of _ ?w2]) simp
qed

text \<open>
  Claim C3. Construction asks the Jacobian callback and then the Hessian callback for the
  sparsity pattern. If the two arrays of a pattern differ in length, construction raises (the
  assertion error, unless a dimension is outside the range of a C integer) and no native call
  has been made. A construction that returns has made exactly these two queries, once each,
  both pairs agree, and the lengths are the recorded nonzero counts. Construction does return
  when the dimensions and counts fit a C integer, the pairs agree and the four bounds are
  conforming buffers.
\<close>

theorem construction_structure_queries:
  assumes "jac_structure eval_jac_g = (Jrow, Jcol)"
    and "hess_structure eval_h = (Hrow, Hcol)"
    and "r = IpoptContext_init lib n m l u gl gu eval_f eval_g eval_grad_f eval_jac_g eval_h w"
  shows
    "(length Jrow \<noteq> length Jcol \<or> length Hrow \<noteq> length Hcol \<longrightarrow>
        (fst r = Inl (Raise AssertionError) \<or> fst r = Inl (Raise OverflowError))
        \<and> native_calls (snd r) = native_calls w)
     \<and> (- (2 ^ 31) \<le> n \<and> n < 2 ^ 31 \<and> - (2 ^ 31) \<le> m \<and> m < 2 ^ 31
          \<and> int (length Jrow) < 2 ^ 31
          \<and> (length Jrow \<noteq> length Jcol \<or> length Hrow \<noteq> length Hcol) \<longrightarrow>
        fst r = Inl (Raise AssertionError))
     \<and> (\<forall>self. fst r = Inr self \<longrightarrow>
          cb_calls (snd r) = cb_calls w @ [Call_eval_jac_g None True, Call_eval_h None None None True]
          \<and> length Jrow = length Jcol \<and> length Hrow = length Hcol
          \<and> self_nnzj self = int (length Jrow) \<and> self_nnzh self = int (length Hrow))
     \<and> (- (2 ^ 31) \<le> n \<and> n < 2 ^ 31 \<and> - (2 ^ 31) \<le> m \<and> m < 2 ^ 31
          \<and> length Jrow = length Jcol \<and> int (length Jrow) < 2 ^ 31
          \<and> length Hrow = length Hcol \<and> int (length Hrow) < 2 ^ 31
          \<and> is_double_buffer l \<and> is_double_buffer u \<and> is_double_buffer gl \<and> is_double_buffer gu \<longrightarrow>
        (\<exists>self. fst r = Inr self))"
proof (intro conjI impI allI)
  assume d: "length Jrow \<noteq> length Jcol \<or> length Hrow \<noteq> length Hcol"
  show "fst r = Inl (Raise AssertionError) \<or> fst r = Inl (Raise OverflowError)"
    using assms d
    by (auto simp: IpoptContext_init_def Let_def to_c_int_def split: if_splits)
  then obtain e where "fst r = Inl e" by blast
  then show "native_calls (snd r) = native_calls w"
    unfolding assms(3) by (rule init_fails_no_native_call)
next
  assume "- (2 ^ 31) \<le> n \<and> n < 2 ^ 31 \<and> - (2 ^ 31) \<le> m \<and> m < 2 ^ 31
          \<and> int (length Jrow) < 2 ^ 31
          \<and> (length Jrow \<noteq> length Jcol \<or> length Hrow \<noteq> length Hcol)"
  then show "fst r = Inl (Raise AssertionError)"
    unfolding assms(3) using assms(1,2) by (intro init_assertion [where Jrow = Jrow and Jcol = Jcol and Hrow = Hrow and Hcol = Hcol]) auto
next
  fix self assume "fst r = Inr self"
  then have "IpoptContext_init lib n m l u gl gu eval_f eval_g eval_grad_f eval_jac_g eval_h w
               = (Inr self, snd r)"
    unfolding assms(3) by (simp add: prod_eq_iff)
  from init_returns [OF this] assms(1,2)
  show "cb_calls (snd r) = cb_calls w @ [Call_eval_jac_g None True, Call_eval_h None None None True]"
    "length Jrow = length Jcol" "length Hrow = length Hcol"
    "self_nnzj self = int (length Jrow)" "self_nnzh self = int (length Hrow)"
    by auto
next
  assume a: "- (2 ^ 31) \<le> n \<and> n < 2 ^ 31 \<and> - (2 ^ 31) \<le> m \<and> m < 2 ^ 31
          \<and> length Jrow = length Jcol \<and> int (length Jrow) < 2 ^ 31
          \<and> length Hrow = length Hcol \<and> int (length Hrow) < 2 ^ 31
          \<and> is_double_buffer l \<and> is_double_buffer u \<and> is_double_buffer gl \<and> is_double_buffer gu"
  then obtain al au agl agu where
    "as_double_buffer l = Inr (Some al)" "as_double_buffer u = Inr (Some au)"
    "as_double_buffer gl = Inr (Some agl)" "as_double_buffer gu = Inr (Some agu)"
    using is_double_buffer_binds [of l] is_double_buffer_binds [of u]
      is_double_buffer_binds [of gl] is_double_buffer_binds [of gu]
    by blast
  with a assms(1,2) have "\<exists>self w'.
      IpoptContext_init lib n m l u gl gu eval_f eval_g eval_grad_f eval_jac_g eval_h w = (Inr self, w')"
    by (intro init_success [where Jrow = Jrow and Jcol = Jcol and Hrow = Hrow and Hcol = Hcol]) auto
  then show "\<exists>self. fst r = Inr self"
    unfolding assms(3) by auto
qed

theorem construction_structure_queries_witness:
  "length [0, 1 :: c_int] \<noteq> length [0 :: c_int]
   \<and> fst (IpoptContext_init example_native 2 1
            (example_bound 2 0) (example_bound 2 1) (example_bound 1 2) (example_bound 1 3)
            (\<lambda>v. Inr 0) (\<lambda>v. []) (\<lambda>v. [])
            (example_jac ([0, 1], [0])) (example_hess ([0], [0])) example_world)
       = Inl (Raise AssertionError)
   \<and> native_calls (snd (IpoptContext_init example_native 2 1
            (example_bound 2 0) (example_bound 2 1) (example_bound 1 2) (example_bound 1 3)
            (\<lambda>v. Inr 0) (\<lambda>v. []) (\<lambda>v. [])
            (example_jac ([0, 1], [0])) (example_hess ([0], [0])) example_world)) = []
   \<and> (\<exists>self. fst (IpoptContext_init example_native 2 1
            (example_bound 2 0) (example_bound 2 1) (example_bound 1 2) (example_bound 1 3)
            (\<lambda>v. Inr 0) (\<lambda>v. []) (\<lambda>v. [])
            (example_jac ([0, 1], [0, 0])) (example_hess ([0], [0])) example_world) = Inr self
          \<and> self_nnzj self = 2 \<and> self_nnzh self = 1)"
proof -
  have j1: "jac_structure (example_jac ([0, 1], [0])) = ([0, 1], [0])"
    and j2: "jac_structure (example_jac ([0, 1], [0, 0])) = ([0, 1], [0, 0])"
    and h: "hess_structure (example_hess ([0], [0])) = ([0], [0])"
    by (simp_all add: example_jac_def example_hess_def)
  have b: "is_double_buffer (example_bound 2 0)" "is_double_buffer (example_bound 2 1)"
    "is_double_buffer (example_bound 1 2)" "is_double_buffer (example_bound 1 3)"
    by (simp_all add: is_double_buffer_def example_bound_def double_array_def)
  have w: "native_calls example_world = []" by (simp add: example_world_def)
  note bad = construction_structure_queries [OF j1 h refl, of example_native 2 1
      "example_bound 2 0" "example_bound 2 1" "example_bound 1 2" "example_bound 1 3"
      "\<lambda>v. Inr 0" "\<lambda>v. []" "\<lambda>v. []" example_world]
  note good = construction_structure_queries [OF j2 h refl, of example_native 2 1
      "example_bound 2 0" "example_bound 2 1" "example_bound 1 2" "example_bound 1 3"
      "\<lambda>v. Inr 0" "\<lambda>v. []" "\<lambda>v. []" example_world]
  from good b obtain self where
    s: "fst (IpoptContext_init example_native 2 1
            (example_bound 2 0) (example_bound 2 1) (example_bound 1 2) (example_bound 1 3)
            (\<lambda>v. Inr 0) (\<lambda>v. []) (\<lambda>v. [])
            (example_jac ([0, 1], [0, 0])) (example_hess ([0], [0])) example_world) = Inr self"
    by auto
  with good have "self_nnzj self = 2 \<and> self_nnzh self = 1" by simp
  with s bad w show ?thesis by simp
qed

text \<open>
  Construction does not look at the lengths of the bounds: with \<open>n = 2\<close> and \<open>m = 1\<close>,
  bounds of lengths 1, 5, 0 and 3 are accepted and the native constructor is called with
  their data addresses.
\<close>

theorem construction_accepts_any_length:
  "arr_shape (double_array 1 0) \<noteq> [2]
   \<and> \<not> isl (fst (IpoptContext_init example_native 2 1
            (PyNdarray (double_array 1 0)) (PyNdarray (double_array 5 1))
            (PyNdarray (double_array 0 2)) (PyNdarray (double_array 3 3))
            (\<lambda>v. Inr 0) (\<lambda>v. []) (\<lambda>v. [])
            (example_jac ([0, 1], [0, 0])) (example_hess ([0], [0])) example_world))
   \<and> native_calls (snd (IpoptContext_init example_native 2 1
            (PyNdarray (double_array 1 0)) (PyNdarray (double_array 5 1))
            (PyNdarray (double_array 0 2)) (PyNdarray (double_array 3 3))
            (\<lambda>v. Inr 0) (\<lambda>v. []) (\<lambda>v. [])
            (example_jac ([0, 1], [0, 0])) (example_hess ([0], [0])) example_world))
       = [CreateIpoptProblem 2 0 1 1 2 3 2 1 0]"
  by (simp add: IpoptContext_init_def create_problem_def to_c_int_def Let_def example_defs)

text \<open>
  Claim C8, as amended. Construction raises, with no native call made, whenever one of the
  four bounds is an object other than \<^verbatim>\<open>None\<close> that is not a one-dimensional C-contiguous
  array of native doubles. A construction that returns has handed the data addresses of the
  caller's four arrays themselves to the native constructor and has allocated nothing. The
  lengths of the arrays are not compared with \<open>n\<close> and \<open>m\<close>: construction returns for
  conforming buffers of any lengths.
\<close>

theorem construction_buffer_check:
  assumes "r = IpoptContext_init lib n m l u gl gu eval_f eval_g eval_grad_f eval_jac_g eval_h w"
  shows
    "((\<exists>b \<in> {l, u, gl, gu}. b \<noteq> PyNone \<and> \<not> is_double_buffer b) \<longrightarrow>
        (\<exists>e. fst r = Inl (Raise e)) \<and> native_calls (snd r) = native_calls w)
     \<and> (\<forall>self. fst r = Inr self \<longrightarrow>
          (\<exists>al au agl agu.
             l = PyNdarray al \<and> u = PyNdarray au \<and> gl = PyNdarray agl \<and> gu = PyNdarray agu
             \<and> is_double_buffer l \<and> is_double_buffer u \<and> is_double_buffer gl \<and> is_double_buffer gu
             \<and> native_calls (snd r) = native_calls w @
                 [CreateIpoptProblem n (arr_data al) (arr_data au) m (arr_data agl) (arr_data agu)
                    (self_nnzj self) (self_nnzh self) 0])
          \<and> mem (snd r) = mem w \<and> brk (snd r) = brk w)
     \<and> (- (2 ^ 31) \<le> n \<and> n < 2 ^ 31 \<and> - (2 ^ 31) \<le> m \<and> m < 2 ^ 31
          \<and> length (fst (jac_structure eval_jac_g)) = length (snd (jac_structure eval_jac_g))
          \<and> int (length (fst (jac_structure eval_jac_g))) < 2 ^ 31
          \<and> length (fst (hess_structure eval_h)) = length (snd (hess_structure eval_h))
          \<and> int (length (fst (hess_structure eval_h))) < 2 ^ 31
          \<and> is_double_buffer l \<and> is_double_buffer u \<and> is_double_buffer gl \<and> is_double_buffer gu \<longrightarrow>
        (\<exists>self. fst r = Inr self))"
proof (intro conjI impI allI)
  assume "\<exists>b \<in> {l, u, gl, gu}. b \<noteq> PyNone \<and> \<not> is_double_buffer b"
  then obtain b where b: "b \<in> {l, u, gl, gu}" "b \<noteq> PyNone" "\<not> is_double_buffer b" by blast
  have "\<exists>e. fst r = Inl (Raise e)"
  proof (cases "fst r")
    case (Inl f)
    show ?thesis
    proof (cases f)
      case (Raise e) with Inl show ?thesis by simp
    next
      case Undefined
      with Inl have "fst r = Inl Undefined" by simp
      from init_undefined [OF this [unfolded assms]] obtain self' w2 where
        s: "self_l self' = l" "self_u self' = u" "self_gl self' = gl" "self_gu self' = gu"
        and c: "fst (create_problem lib self' w2) = Inl Undefined"
        by blast
      from b s have "b \<in> {self_l self', self_u self', self_gl self', self_gu self'}" by simp
      from create_problem_raises [OF this b(2,3), of lib w2] c have False by auto
      then show ?thesis ..
    qed
  next
    case (Inr self)
    then have "IpoptContext_init lib n m l u gl gu eval_f eval_g eval_grad_f eval_jac_g eval_h w
               = (Inr self, snd r)"
      unfolding assms by (simp add: prod_eq_iff)
    from init_returns [OF this] b have False
      by (auto simp: as_double_buffer_Some)
    then show ?thesis ..
  qed
  then show "\<exists>e. fst r = Inl (Raise e)" .
  then obtain e where "fst r = Inl (Raise e)" ..
  then show "native_calls (snd r) = native_calls w"
    unfolding assms by (rule init_fails_no_native_call)
next
  fix self assume "fst r = Inr self"
  then have "IpoptContext_init lib n m l u gl gu eval_f eval_g eval_grad_f eval_jac_g eval_h w
               = (Inr self, snd r)"
    unfolding assms by (simp add: prod_eq_iff)
  from init_returns [OF this]
  show "\<exists>al au agl agu.
             l = PyNdarray al \<and> u = PyNdarray au \<and> gl = PyNdarray agl \<and> gu = PyNdarray agu
             \<and> is_double_buffer l \<and> is_double_buffer u \<and> is_double_buffer gl \<and> is_double_buffer gu
             \<and> native_calls (snd r) = native_calls w @
                 [CreateIpoptProblem n (arr_data al) (arr_data au) m (arr_data agl) (arr_data agu)
                    (self_nnzj self) (self_nnzh self) 0]"
    by (auto simp: as_double_buffer_Some)
  show "mem (snd r) = mem w" "brk (snd r) = brk w"
    unfolding assms using init_keeps_store by blast+
next
  assume a: "- (2 ^ 31) \<le> n \<and> n < 2 ^ 31 \<and> - (2 ^ 31) \<le> m \<and> m < 2 ^ 31
          \<and> length (fst (jac_structure eval_jac_g)) = length (snd (jac_structure eval_jac_g))
          \<and> int (length (fst (jac_structure eval_jac_g))) < 2 ^ 31
          \<and> length (fst (hess_structure eval_h)) = length (snd (hess_structure eval_h))
          \<and> int (length (fst (hess_structure eval_h))) < 2 ^ 31
          \<and> is_double_buffer l \<and> is_double_buffer u \<and> is_double_buffer gl \<and> is_double_buffer gu"
  then obtain al au agl agu where
    "as_double_buffer l = Inr (Some al)" "as_double_buffer u = Inr (Some au)"
    "as_double_buffer gl = Inr (Some agl)" "as_double_buffer gu = Inr (Some agu)"
    using is_double_buffer_binds [of l] is_double_buffer_binds [of u]
      is_double_buffer_binds [of gl] is_double_buffer_binds [of gu]
    by blast
  with a have "\<exists>self w'.
      IpoptContext_init lib n m l u gl gu eval_f eval_g eval_grad_f eval_jac_g eval_h w = (Inr self, w')"
    by (intro init_success [where Jrow = "fst (jac_structure eval_jac_g)"
          and Jcol = "snd (jac_structure eval_jac_g)"
          and Hrow = "fst (hess_structure eval_h)" and Hcol = "snd (hess_structure eval_h)"]) auto
  then show "\<exists>self. fst r = Inr self"
    unfolding assms by auto
qed

theorem construction_buffer_check_witness:
  "(\<exists>b \<in> {PyOther, example_bound 2 1, example_bound 1 2, example_bound 1 3}.
       b \<noteq> PyNone \<and> \<not> is_double_buffer b)
   \<and> (\<exists>e. fst (IpoptContext_init example_native 2 1
            PyOther (example_bound 2 1) (example_bound 1 2) (example_bound 1 3)
            (\<lambda>v. Inr 0) (\<lambda>v. []) (\<lambda>v. [])
            (example_jac ([0, 1], [0, 0])) (example_hess ([0], [0])) example_world)
         = Inl (Raise e))
   \<and> native_calls (snd (IpoptContext_init example_native 2 1
            PyOther (example_bound 2 1) (example_bound 1 2) (example_bound 1 3)
            (\<lambda>v. Inr 0) (\<lambda>v. []) (\<lambda>v. [])
            (example_jac ([0, 1], [0, 0])) (example_hess ([0], [0])) example_world)) = []
   \<and> (\<exists>self. fst (IpoptContext_init example_native 2 1
            (example_bound 7 0) (example_bound 2 1) (example_bound 1 2) (example_bound 1 3)
            (\<lambda>v. Inr 0) (\<lambda>v. []) (\<lambda>v. [])
            (example_jac ([0, 1], [0, 0])) (example_hess ([0], [0])) example_world) = Inr self)
   \<and> native_calls (snd (IpoptContext_init example_native 2 1
            (example_bound 7 0) (example_bound 2 1) (example_bound 1 2) (example_bound 1 3)
            (\<lambda>v. Inr 0) (\<lambda>v. []) (\<lambda>v. [])
            (example_jac ([0, 1], [0, 0])) (example_hess ([0], [0])) example_world))
       = [CreateIpoptProblem 2 0 1 1 2 3 2 1 0]"
proof -
  have b: "is_double_buffer (example_bound 7 0)" "is_double_buffer (example_bound 2 1)"
    "is_double_buffer (example_bound 1 2)" "is_double_buffer (example_bound 1 3)"
    by (simp_all add: is_double_buffer_def example_bound_def double_array_def)
  have o: "\<not> is_double_buffer PyOther" by (simp add: is_double_buffer_def)
  have w: "native_calls example_world = []" by (simp add: example_world_def)
  have s: "jac_structure (example_jac ([0, 1], [0, 0])) = ([0, 1], [0, 0])"
    "hess_structure (example_hess ([0], [0])) = ([0], [0])"
    by (simp_all add: example_jac_def example_hess_def)
  note bad = construction_buffer_check [OF refl, of PyOther "example_bound 2 1"
      "example_bound 1 2" "example_bound 1 3" example_native 2 1
      "\<lambda>v. Inr 0" "\<lambda>v. []" "\<lambda>v. []" "example_jac ([0, 1], [0, 0])" "example_hess ([0], [0])"
      example_world]
  note good = construction_buffer_check [OF refl, of "example_bound 7 0" "example_bound 2 1"
      "example_bound 1 2" "example_bound 1 3" example_native 2 1
      "\<lambda>v. Inr 0" "\<lambda>v. []" "\<lambda>v. []" "example_jac ([0, 1], [0, 0])" "example_hess ([0], [0])"
      example_world]
  from good b s obtain self where
    r: "fst (IpoptContext_init example_native 2 1
            (example_bound 7 0) (example_bound 2 1) (example_bound 1 2) (example_bound 1 3)
            (\<lambda>v. Inr 0) (\<lambda>v. []) (\<lambda>v. [])
            (example_jac ([0, 1], [0, 0])) (example_hess ([0], [0])) example_world) = Inr self"
    by auto
  have n: "native_calls (snd (IpoptContext_init example_native 2 1
            (example_bound 7 0) (example_bound 2 1) (example_bound 1 2) (example_bound 1 3)
            (\<lambda>v. Inr 0) (\<lambda>v. []) (\<lambda>v. [])
            (example_jac ([0, 1], [0, 0])) (example_hess ([0], [0])) example_world))
       = [CreateIpoptProblem 2 0 1 1 2 3 2 1 0]"
    by (simp add: IpoptContext_init_def create_problem_def to_c_int_def Let_def example_defs)
  from bad o w r n show ?thesis by auto
qed

section \<open>Properties of the options\<close>

lemma add_option_cases:
  "(\<exists>c. native_calls (snd (add_option lib char_ptr self key val w)) = native_calls w @ [c]
         \<and> fst (add_option lib char_ptr self key val w) =
             (if AddIpoptOption_ret lib (native_calls w @ [c]) then Inr ()
              else Inl (Raise (IpoptContextError key))))
   \<or> (snd (add_option lib char_ptr self key val w) = w
       \<and> fst (add_option lib char_ptr self key val w) \<in>
            {Inl (Raise ValueError), Inl (Raise TypeError), Inl (Raise OverflowError)})"
proof (cases "char_ptr key")
  case None
  then show ?thesis
    by (cases val) (simp_all add: add_option_def native_setter_def as_char_ptr_def)
next
  case (Some k)
  show ?thesis
  proof (cases val)
    case (PyStr t)
    with Some show ?thesis
      by (cases "char_ptr t") (simp_all add: add_option_def native_setter_def as_char_ptr_def Let_def)
  qed (use Some in \<open>simp_all add: add_option_def native_setter_def as_char_ptr_def to_c_int_def Let_def\<close>)
qed

text \<open>
  An integer outside the range of a C \<^verbatim>\<open>int\<close> is an instance of \<^verbatim>\<open>int\<close>, yet no
  setter is invoked for it: the conversion of the argument raises \<^verbatim>\<open>OverflowError\<close>.
\<close>

theorem add_option_integer_overflow:
  "isinstance (PyInt (2 ^ 31)) Class_int
   \<and> add_option example_native Some (example_context [] ([], [])) ''max_iter'' (PyInt (2 ^ 31))
       example_world = (Inl (Raise OverflowError), example_world)"
  by (simp add: add_option_def native_setter_def as_char_ptr_def to_c_int_def)

text \<open>
  Claim C4, as amended. \<^verbatim>\<open>add_option\<close> makes at most one native call, chosen by the type
  of the value: exactly one call of the integer setter for an integer in the range of a C
  \<^verbatim>\<open>int\<close> (a boolean included), of the string setter for a string, of the numeric setter for
  a float, with the handle, the converted key and the converted value, provided the key (and a
  string value) converts to a C string. When a conversion raises (\<^verbatim>\<open>OverflowError\<close> for an
  integer out of range) no setter is invoked. For a value of any other type it raises
  \<^verbatim>\<open>ValueError\<close> at once. Whenever no setter is invoked the call fails and the world, the
  record of native calls included, is as it was.
\<close>

theorem add_option_dispatch:
  "native_calls (snd (add_option lib char_ptr self key val w)) =
     native_calls w @
       (case char_ptr key of
          None \<Rightarrow> []
        | Some k \<Rightarrow>
            (case val of
               PyInt i \<Rightarrow>
                 (if - (2 ^ 31) \<le> i \<and> i < 2 ^ 31
                  then [AddIpoptIntOption (self_problem self) k i] else [])
             | PyBool b \<Rightarrow> [AddIpoptIntOption (self_problem self) k (if b then 1 else 0)]
             | PyStr t \<Rightarrow>
                 (case char_ptr t of
                    None \<Rightarrow> []
                  | Some ct \<Rightarrow> [AddIpoptStrOption (self_problem self) k ct])
             | PyFloat d \<Rightarrow> [AddIpoptNumOption (self_problem self) k d]
             | _ \<Rightarrow> []))
   \<and> (\<not> isinstance val Class_int \<and> \<not> isinstance val Class_str \<and> \<not> isinstance val Class_float
        \<longrightarrow> add_option lib char_ptr self key val w = (Inl (Raise ValueError), w))
   \<and> (\<forall>i k. val = PyInt i \<and> char_ptr key = Some k \<and> (i < - (2 ^ 31) \<or> 2 ^ 31 \<le> i)
        \<longrightarrow> add_option lib char_ptr self key val w = (Inl (Raise OverflowError), w))
   \<and> (native_calls (snd (add_option lib char_ptr self key val w)) = native_calls w
        \<longrightarrow> isl (fst (add_option lib char_ptr self key val w))
          \<and> snd (add_option lib char_ptr self key val w) = w)"
proof (intro conjI)
  show "native_calls (snd (add_option lib char_ptr self key val w)) =
     native_calls w @
       (case char_ptr key of
          None \<Rightarrow> []
        | Some k \<Rightarrow>
            (case val of
               PyInt i \<Rightarrow>
                 (if - (2 ^ 31) \<le> i \<and> i < 2 ^ 31
                  then [AddIpoptIntOption (self_problem self) k i] else [])
             | PyBool b \<Rightarrow> [AddIpoptIntOption (self_problem self) k (if b then 1 else 0)]
             | PyStr t \<Rightarrow>
                 (case char_ptr t of
                    None \<Rightarrow> []
                  | Some ct \<Rightarrow> [AddIpoptStrOption (self_problem self) k ct])
             | PyFloat d \<Rightarrow> [AddIpoptNumOption (self_problem self) k d]
             | _ \<Rightarrow> []))"
  proof (cases "char_ptr key")
    case None
    then show ?thesis
      by (cases val) (simp_all add: add_option_def native_setter_def as_char_ptr_def)
  next
    case (Some k)
    show ?thesis
    proof (cases val)
      case (PyStr t)
      with Some show ?thesis
        by (cases "char_ptr t")
           (simp_all add: add_option_def native_setter_def as_char_ptr_def Let_def)
    qed (use Some in \<open>simp_all add: add_option_def native_setter_def as_char_ptr_def
           to_c_int_def Let_def\<close>)
  qed
  show "\<not> isinstance val Class_int \<and> \<not> isinstance val Class_str \<and> \<not> isinstance val Class_float
        \<longrightarrow> add_option lib char_ptr self key val w = (Inl (Raise ValueError), w)"
    by (simp add: add_option_def)
  show "\<forall>i k. val = PyInt i \<and> char_ptr key = Some k \<and> (i < - (2 ^ 31) \<or> 2 ^ 31 \<le> i)
        \<longrightarrow> add_option lib char_ptr self key val w = (Inl (Raise OverflowError), w)"
    by (auto simp: add_option_def native_setter_def as_char_ptr_def to_c_int_def)
  show "native_calls (snd (add_option lib char_ptr self key val w)) = native_calls w
        \<longrightarrow> isl (fst (add_option lib char_ptr self key val w))
          \<and> snd (add_option lib char_ptr self key val w) = w"
    using add_option_cases [of lib char_ptr self key val w] by auto
qed

theorem add_option_dispatch_witness:
  "\<not> isinstance PyOther Class_int \<and> \<not> isinstance PyOther Class_str
   \<and> \<not> isinstance PyOther Class_float
   \<and> add_option example_native Some (example_context [] ([], [])) ''tol'' PyOther example_world
       = (Inl (Raise ValueError), example_world)
   \<and> native_calls (snd (add_option example_native Some (example_context [] ([], []))
                          ''max_iter'' (PyInt 5) example_world))
       = [AddIpoptIntOption 1 ''max_iter'' 5]
   \<and> (- 1 - 2 ^ 31 < - (2 ^ 31 :: int) \<or> (2 ^ 31 :: int) \<le> - 1 - 2 ^ 31)
   \<and> add_option example_native Some (example_context [] ([], [])) ''max_iter''
         (PyInt (- 1 - 2 ^ 31)) example_world
       = (Inl (Raise OverflowError), example_world)"
  using add_option_dispatch [of example_native Some "example_context [] ([], [])" "''tol''"
      PyOther example_world]
    add_option_dispatch [of example_native Some "example_context [] ([], [])" "''max_iter''"
      "PyInt 5" example_world]
    add_option_dispatch [of example_native Some "example_context [] ([], [])" "''max_iter''"
      "PyInt (- 1 - 2 ^ 31)" example_world]
  by (simp add: example_defs)

text \<open>
  Claim C5. \<^verbatim>\<open>add_option\<close> raises \<^verbatim>\<open>IpoptContextError\<close> exactly when a native setter was
  invoked and answered false; when the setter invoked answers true it returns. The
  \<^verbatim>\<open>IpoptContextError\<close> names the key, and it is none of the exceptions of the calls in
  which no setter is invoked (\<^verbatim>\<open>ValueError\<close> for an unsupported type, \<^verbatim>\<open>TypeError\<close> and
  \<^verbatim>\<open>OverflowError\<close> for an argument that does not convert).
\<close>

theorem add_option_configuration_error:
  "((\<exists>k. fst (add_option lib char_ptr self key val w) = Inl (Raise (IpoptContextError k)))
      = (\<exists>c. native_calls (snd (add_option lib char_ptr self key val w)) = native_calls w @ [c]
             \<and> \<not> AddIpoptOption_ret lib (native_calls w @ [c])))
   \<and> ((\<exists>c. native_calls (snd (add_option lib char_ptr self key val w)) = native_calls w @ [c]
             \<and> AddIpoptOption_ret lib (native_calls w @ [c]))
        \<longrightarrow> fst (add_option lib char_ptr self key val w) = Inr ())
   \<and> fst (add_option lib char_ptr self key val w) \<in>
        {Inr (), Inl (Raise ValueError), Inl (Raise TypeError), Inl (Raise OverflowError),
         Inl (Raise (IpoptContextError key))}"
  using add_option_cases [of lib char_ptr self key val w]
  by (auto split: if_splits)

theorem add_option_configuration_error_witness:
  "native_calls (snd (add_option example_native Some (example_context [] ([], [])) ''max_iter''
                        (PyInt 5) example_world))
     = native_calls example_world @ [AddIpoptIntOption 1 ''max_iter'' 5]
   \<and> AddIpoptOption_ret example_native
        (native_calls example_world @ [AddIpoptIntOption 1 ''max_iter'' 5])
   \<and> fst (add_option example_native Some (example_context [] ([], [])) ''max_iter'' (PyInt 5)
             example_world) = Inr ()
   \<and> native_calls (snd (add_option example_native Some (example_context [] ([], [])) ''max_iter''
                        (PyInt (- 1)) example_world))
     = native_calls example_world @ [AddIpoptIntOption 1 ''max_iter'' (- 1)]
   \<and> \<not> AddIpoptOption_ret example_native
        (native_calls example_world @ [AddIpoptIntOption 1 ''max_iter'' (- 1)])
   \<and> (\<exists>k. fst (add_option example_native Some (example_context [] ([], [])) ''max_iter''
                  (PyInt (- 1)) example_world) = Inl (Raise (IpoptContextError k)))"
proof -
  have a: "native_calls (snd (add_option example_native Some (example_context [] ([], []))
                        ''max_iter'' (PyInt 5) example_world))
     = native_calls example_world @ [AddIpoptIntOption 1 ''max_iter'' 5]"
    by (simp add: add_option_def native_setter_def as_char_ptr_def to_c_int_def example_defs)
  have a': "AddIpoptOption_ret example_native
        (native_calls example_world @ [AddIpoptIntOption 1 ''max_iter'' 5])"
    by (simp add: example_defs)
  have b: "native_calls (snd (add_option example_native Some (example_context [] ([], []))
                        ''max_iter'' (PyInt (- 1)) example_world))
     = native_calls example_world @ [AddIpoptIntOption 1 ''max_iter'' (- 1)]"
    by (simp add: add_option_def native_setter_def as_char_ptr_def to_c_int_def example_defs)
  have b': "\<not> AddIpoptOption_ret example_native
        (native_calls example_world @ [AddIpoptIntOption 1 ''max_iter'' (- 1)])"
    by (simp add: example_defs)
  from a a' have good: "fst (add_option example_native Some (example_context [] ([], []))
             ''max_iter'' (PyInt 5) example_world) = Inr ()"
    using add_option_configuration_error [of example_native Some "example_context [] ([], [])"
        "''max_iter''" "PyInt 5" example_world]
    by blast
  from b b' have bad: "\<exists>k. fst (add_option example_native Some (example_context [] ([], []))
             ''max_iter'' (PyInt (- 1)) example_world) = Inl (Raise (IpoptContextError k))"
    using add_option_configuration_error [of example_native Some "example_context [] ([], [])"
        "''max_iter''" "PyInt (- 1)" example_world]
    by blast
  from a a' b b' good bad show ?thesis by blast
qed

section \<open>Properties of solve\<close>

lemma np_zeros_ok:
  "0 \<le> k \<Longrightarrow> np_zeros k w =
     (Inr (double_array (nat k) (brk w)),
      w\<lparr>mem := (mem w)(brk w \<mapsto> replicate (nat k) 0), brk := Suc (brk w)\<rparr>)"
  by (simp add: np_zeros_def)

lemma solve_success:
  assumes "as_double_buffer x = Inr (Some ax)" and "0 \<le> self_n self" and "0 \<le> self_m self"
  shows "solve lib self x w =
    (let b = brk w;
         s = (mem w)(b \<mapsto> replicate (nat (self_m self)) 0,
                     Suc b \<mapsto> replicate (nat (self_n self)) 0,
                     Suc (Suc b) \<mapsto> replicate (nat (self_n self)) 0);
         calls = native_calls w @
           [IpoptSolve (self_problem self) (arr_data ax, s (arr_data ax))
              (b, Some (replicate (nat (self_m self)) 0))
              (Suc b, Some (replicate (nat (self_n self)) 0))
              (Suc (Suc b), Some (replicate (nat (self_n self)) 0))];
         (status, fx, flam, fpi, fmu) = IpoptSolve_ret lib calls
     in (Inr [(''status'', PyInt status),
              (''x'', x),
              (''lam'', PyNdarray (double_array (nat (self_m self)) b)),
              (''pi'', PyNdarray (double_array (nat (self_n self)) (Suc b))),
              (''mu'', PyNdarray (double_array (nat (self_n self)) (Suc (Suc b))))],
         w\<lparr>native_calls := calls,
           mem := native_write fmu (Suc (Suc b)) (native_write fpi (Suc b)
                    (native_write flam b (native_write fx (arr_data ax) s))),
           brk := Suc (Suc (Suc b))\<rparr>))"
proof -
  have x: "x = PyNdarray ax" using assms(1) by (cases x) (auto split: if_splits)
  show ?thesis
    using assms
    by (simp add: solve_def np_zeros_ok Let_def double_array_def x split: prod.split)
qed

lemma solve_returns:
  assumes "as_double_buffer x = Inr (Some ax)" and "0 \<le> self_n self" and "0 \<le> self_m self"
  obtains status fx flam fpi fmu s calls where
    "s = (mem w)(brk w \<mapsto> replicate (nat (self_m self)) 0,
                 Suc (brk w) \<mapsto> replicate (nat (self_n self)) 0,
                 Suc (Suc (brk w)) \<mapsto> replicate (nat (self_n self)) 0)"
    "calls = native_calls w @
           [IpoptSolve (self_problem self) (arr_data ax, s (arr_data ax))
              (brk w, Some (replicate (nat (self_m self)) 0))
              (Suc (brk w), Some (replicate (nat (self_n self)) 0))
              (Suc (Suc (brk w)), Some (replicate (nat (self_n self)) 0))]"
    "IpoptSolve_ret lib calls = (status, fx, flam, fpi, fmu)"
    "solve lib self x w =
       (Inr [(''status'', PyInt status),
             (''x'', x),
             (''lam'', PyNdarray (double_array (nat (self_m self)) (brk w))),
             (''pi'', PyNdarray (double_array (nat (self_n self)) (Suc (brk w)))),
             (''mu'', PyNdarray (double_array (nat (self_n self)) (Suc (Suc (brk w)))))],
        w\<lparr>native_calls := calls,
          mem := native_write fmu (Suc (Suc (brk w))) (native_write fpi (Suc (brk w))
                   (native_write flam (brk w) (native_write fx (arr_data ax) s))),
          brk := Suc (Suc (Suc (brk w)))\<rparr>)"
proof -
  define s where "s = (mem w)(brk w \<mapsto> replicate (nat (self_m self)) 0,
                 Suc (brk w) \<mapsto> replicate (nat (self_n self)) 0,
                 Suc (Suc (brk w)) \<mapsto> replicate (nat (self_n self)) 0)"
  define calls where "calls = native_calls w @
           [IpoptSolve (self_problem self) (arr_data ax, s (arr_data ax))
              (brk w, Some (replicate (nat (self_m self)) 0))
              (Suc (brk w), Some (replicate (nat (self_n self)) 0))
              (Suc (Suc (brk w)), Some (replicate (nat (self_n self)) 0))]"
  obtain status fx flam fpi fmu where r: "IpoptSolve_ret lib calls = (status, fx, flam, fpi, fmu)"
    by (cases "IpoptSolve_ret lib calls") auto
  have "solve lib self x w =
       (Inr [(''status'', PyInt status),
             (''x'', x),
             (''lam'', PyNdarray (double_array (nat (self_m self)) (brk w))),
             (''pi'', PyNdarray (double_array (nat (self_n self)) (Suc (brk w)))),
             (''mu'', PyNdarray (double_array (nat (self_n self)) (Suc (Suc (brk w)))))],
        w\<lparr>native_calls := calls,
          mem := native_write fmu (Suc (Suc (brk w))) (native_write fpi (Suc (brk w))
                   (native_write flam (brk w) (native_write fx (arr_data ax) s))),
          brk := Suc (Suc (Suc (brk w)))\<rparr>)"
    using r unfolding solve_success [OF assms] Let_def s_def [symmetric] calls_def [symmetric]
    by simp
  with s_def calls_def r show thesis by (rule that)
qed

lemma native_write_length:
  "map_option length (native_write f a s a') = map_option length (s a')"
  by (simp add: native_write_def split: option.split)

lemma native_write4_length:
  "map_option length (native_write f4 a4 (native_write f3 a3 (native_write f2 a2 (native_write f1 a1 s))) a)
     = map_option length (s a)"
  by (simp add: native_write_length)

text \<open>
  Claim C6. A call of \<^verbatim>\<open>solve\<close> with a conforming starting point of length \<open>n\<close>, on a
  context whose dimensions are counts, returns the dictionary with exactly the keys
  \<^verbatim>\<open>status\<close>, \<^verbatim>\<open>x\<close>, \<^verbatim>\<open>lam\<close>, \<^verbatim>\<open>pi\<close>, \<^verbatim>\<open>mu\<close>; \<open>x\<close> has length \<open>n\<close>, \<open>lam\<close>
  has length \<open>m\<close>, \<open>pi\<close> and \<open>mu\<close> have length \<open>n\<close>, in their descriptors and in the
  store; and the native driver was called with the three multiplier blocks holding zeros.
\<close>

theorem solve_result_shape:
  assumes "as_double_buffer x = Inr (Some ax)"
    and "arr_shape ax = [nat (self_n self)]"
    and "0 \<le> self_n self" and "0 \<le> self_m self"
  shows "\<exists>status lam npi mu snap w'.
     solve lib self x w =
       (Inr [(''status'', PyInt status), (''x'', PyNdarray ax), (''lam'', PyNdarray lam),
             (''pi'', PyNdarray npi), (''mu'', PyNdarray mu)], w')
     \<and> arr_shape ax = [nat (self_n self)]
     \<and> is_double_buffer (PyNdarray lam) \<and> arr_shape lam = [nat (self_m self)]
     \<and> is_double_buffer (PyNdarray npi) \<and> arr_shape npi = [nat (self_n self)]
     \<and> is_double_buffer (PyNdarray mu) \<and> arr_shape mu = [nat (self_n self)]
     \<and> map_option length (mem w' (arr_data lam)) = Some (nat (self_m self))
     \<and> map_option length (mem w' (arr_data npi)) = Some (nat (self_n self))
     \<and> map_option length (mem w' (arr_data mu)) = Some (nat (self_n self))
     \<and> native_calls w' = native_calls w @
          [IpoptSolve (self_problem self) (arr_data ax, snap)
             (arr_data lam, Some (replicate (nat (self_m self)) 0))
             (arr_data npi, Some (replicate (nat (self_n self)) 0))
             (arr_data mu, Some (replicate (nat (self_n self)) 0))]"
proof -
  have x: "x = PyNdarray ax" using assms(1) by (simp add: as_double_buffer_Some)
  from assms(1,3,4) obtain status fx flam fpi fmu s calls where
    s: "s = (mem w)(brk w \<mapsto> replicate (nat (self_m self)) 0,
                 Suc (brk w) \<mapsto> replicate (nat (self_n self)) 0,
                 Suc (Suc (brk w)) \<mapsto> replicate (nat (self_n self)) 0)"
    and calls: "calls = native_calls w @
           [IpoptSolve (self_problem self) (arr_data ax, s (arr_data ax))
              (brk w, Some (replicate (nat (self_m self)) 0))
              (Suc (brk w), Some (replicate (nat (self_n self)) 0))
              (Suc (Suc (brk w)), Some (replicate (nat (self_n self)) 0))]"
    and r: "solve lib self x w =
       (Inr [(''status'', PyInt status),
             (''x'', x),
             (''lam'', PyNdarray (double_array (nat (self_m self)) (brk w))),
             (''pi'', PyNdarray (double_array (nat (self_n self)) (Suc (brk w)))),
             (''mu'', PyNdarray (double_array (nat (self_n self)) (Suc (Suc (brk w)))))],
        w\<lparr>native_calls := calls,
          mem := native_write fmu (Suc (Suc (brk w))) (native_write fpi (Suc (brk w))
                   (native_write flam (brk w) (native_write fx (arr_data ax) s))),
          brk := Suc (Suc (Suc (brk w)))\<rparr>)"
    by (rule solve_returns [where lib = lib and w = w])
  have l1: "map_option length (s (brk w)) = Some (nat (self_m self))"
    and l2: "map_option length (s (Suc (brk w))) = Some (nat (self_n self))"
    and l3: "map_option length (s (Suc (Suc (brk w)))) = Some (nat (self_n self))"
    by (simp_all add: s)
  show ?thesis
    apply (rule exI [of _ status])
    apply (rule exI [of _ "double_array (nat (self_m self)) (brk w)"])
    apply (rule exI [of _ "double_array (nat (self_n self)) (Suc (brk w))"])
    apply (rule exI [of _ "double_array (nat (self_n self)) (Suc (Suc (brk w)))"])
    apply (rule exI [of _ "s (arr_data ax)"])
    apply (rule exI [of _ "snd (solve lib self x w)"])
    apply (simp add: r x [symmetric] assms(2) native_write4_length l1 l2 l3 calls
        is_double_buffer_def double_array_def)
    done
qed

theorem solve_result_shape_witness:
  "as_double_buffer (example_bound 2 0) = Inr (Some (double_array 2 0))
   \<and> arr_shape (double_array 2 0) = [nat (self_n (example_context [] ([], [])))]
   \<and> 0 \<le> self_n (example_context [] ([], [])) \<and> 0 \<le> self_m (example_context [] ([], []))
   \<and> (\<exists>status lam npi mu w'.
         solve example_native (example_context [] ([], [])) (example_bound 2 0) example_world =
           (Inr [(''status'', PyInt status), (''x'', PyNdarray (double_array 2 0)),
                 (''lam'', PyNdarray lam), (''pi'', PyNdarray npi), (''mu'', PyNdarray mu)], w')
         \<and> arr_shape lam = [2] \<and> arr_shape npi = [2] \<and> arr_shape mu = [2])"
proof -
  have h1: "as_double_buffer (example_bound 2 0) = Inr (Some (double_array 2 0))"
    by (simp add: example_bound_def double_array_def)
  have h2: "arr_shape (double_array 2 0) = [nat (self_n (example_context [] ([], [])))]"
    by (simp add: example_context_def double_array_def)
  have h3: "0 \<le> self_n (example_context [] ([], []))"
    and h4: "0 \<le> self_m (example_context [] ([], []))"
    by (simp_all add: example_context_def)
  have n: "nat (self_n (example_context [] ([], []))) = 2"
    "nat (self_m (example_context [] ([], []))) = 2"
    by (simp_all add: example_context_def)
  from solve_result_shape [OF h1 h2 h3 h4, of example_native example_world]
  have "\<exists>status lam npi mu w'.
         solve example_native (example_context [] ([], [])) (example_bound 2 0) example_world =
           (Inr [(''status'', PyInt status), (''x'', PyNdarray (double_array 2 0)),
                 (''lam'', PyNdarray lam), (''pi'', PyNdarray npi), (''mu'', PyNdarray mu)], w')
         \<and> arr_shape lam = [2] \<and> arr_shape npi = [2] \<and> arr_shape mu = [2]"
    unfolding n by blast
  with h1 h2 h3 h4 show ?thesis by blast
qed




text \<open>
  Claim C9. \<^verbatim>\<open>solve\<close> does not compare the length of the starting point with \<open>n\<close>: for
  every conforming buffer, whatever its shape, on a context whose dimensions are counts, the
  call does not fail and the native driver has been called with the data address of that
  buffer.
\<close>

theorem solve_no_length_validation:
  assumes "as_double_buffer x = Inr (Some ax)"
    and "0 \<le> self_n self" and "0 \<le> self_m self"
  shows "\<not> isl (fst (solve lib self x w))
     \<and> (\<exists>snap lam npi mu.
           native_calls (snd (solve lib self x w)) =
             native_calls w @ [IpoptSolve (self_problem self) (arr_data ax, snap) lam npi mu])"
proof -
  from assms obtain status fx flam fpi fmu s calls where
    calls: "calls = native_calls w @
           [IpoptSolve (self_problem self) (arr_data ax, s (arr_data ax))
              (brk w, Some (replicate (nat (self_m self)) 0))
              (Suc (brk w), Some (replicate (nat (self_n self)) 0))
              (Suc (Suc (brk w)), Some (replicate (nat (self_n self)) 0))]"
    and r: "solve lib self x w =
       (Inr [(''status'', PyInt status),
             (''x'', x),
             (''lam'', PyNdarray (double_array (nat (self_m self)) (brk w))),
             (''pi'', PyNdarray (double_array (nat (self_n self)) (Suc (brk w)))),
             (''mu'', PyNdarray (double_array (nat (self_n self)) (Suc (Suc (brk w)))))],
        w\<lparr>native_calls := calls,
          mem := native_write fmu (Suc (Suc (brk w))) (native_write fpi (Suc (brk w))
                   (native_write flam (brk w) (native_write fx (arr_data ax) s))),
          brk := Suc (Suc (Suc (brk w)))\<rparr>)"
    by (rule solve_returns [where lib = lib and w = w])
  show ?thesis by (simp add: r calls)
qed

theorem solve_no_length_validation_witness:
  "as_double_buffer (example_bound 1 0) = Inr (Some (double_array 1 0))
   \<and> arr_shape (double_array 1 0) \<noteq> [nat (self_n (example_context [] ([], [])))]
   \<and> 0 \<le> self_n (example_context [] ([], [])) \<and> 0 \<le> self_m (example_context [] ([], []))
   \<and> \<not> isl (fst (solve example_native (example_context [] ([], [])) (example_bound 1 0)
                     example_world))
   \<and> (\<exists>snap lam npi mu.
         native_calls (snd (solve example_native (example_context [] ([], [])) (example_bound 1 0)
                              example_world))
           = native_calls example_world
             @ [IpoptSolve (self_problem (example_context [] ([], [])))
                  (arr_data (double_array 1 0), snap) lam npi mu])"
proof -
  have h1: "as_double_buffer (example_bound 1 0) = Inr (Some (double_array 1 0))"
    by (simp add: example_bound_def double_array_def)
  have h2: "arr_shape (double_array 1 0) \<noteq> [nat (self_n (example_context [] ([], [])))]"
    by (simp add: example_context_def double_array_def)
  have h3: "0 \<le> self_n (example_context [] ([], []))"
    and h4: "0 \<le> self_m (example_context [] ([], []))"
    by (simp_all add: example_context_def)
  from solve_no_length_validation [OF h1 h3 h4, of example_native example_world] h1 h2 h3 h4
  show ?thesis by blast
qed

end
